theory Spec2Isabelle
  imports Main "HOL-Library.Extended_Nat"
begin

section \<open>TABITABO: the column reconciliation engine of \<^verbatim>\<open>app.py\<close>\<close>

text \<open>
  The development embeds \<^verbatim>\<open>calculate_similarity\<close>, \<^verbatim>\<open>find_best_match\<close> and
  \<^verbatim>\<open>create_decision_table\<close> of \<^verbatim>\<open>app.py\<close> (the copies in \<^verbatim>\<open>app_demo.py\<close> and
  \<^verbatim>\<open>test_logic.py\<close> are textually the same functions).

  A Python \<^verbatim>\<open>str\<close> is a sequence of code points.  The functions of the code are
  modelled on the strings whose code points are below 256 (ASCII and the Latin-1
  supplement), written as \<^typ>\<open>string\<close>: a \<^typ>\<open>char\<close> is one code point,
  \<^term>\<open>of_char c :: nat\<close> its number.  The general statements about the matcher and the
  decision table use nothing of \<^verbatim>\<open>str.lower()\<close> but that it is a function, and their
  concrete instances are ASCII.  The scorer's own
  properties depend on it, so the scorer is modelled twice more: with the lowering as a
  parameter, over any code points, and on code point numbers with a part of the
  library's case tables that reaches beyond 256.
\<close>

subsection \<open>Library functions: \<^verbatim>\<open>str.lower\<close>, \<^verbatim>\<open>str.upper\<close>, \<^verbatim>\<open>Levenshtein.distance\<close>\<close>

text \<open>
  \<^verbatim>\<open>str.lower()\<close> on code points below 256: the letters \<^verbatim>\<open>A\<close>..\<^verbatim>\<open>Z\<close> (65..90) and the
  Latin-1 capitals U+00C0..U+00D6 and U+00D8..U+00DE (192..214, 216..222) move up by 32;
  every other code point, the multiplication sign U+00D7 and the sharp s U+00DF among
  them, stays as it is.  On these code points the result has one code point per code
  point of the input.
\<close>

definition lower_cp :: "char \<Rightarrow> char" where
  "lower_cp c =
     (let n = (of_char c :: nat)
      in if (65 \<le> n \<and> n \<le> 90) \<or> (192 \<le> n \<and> n \<le> 214) \<or> (216 \<le> n \<and> n \<le> 222)
         then char_of (n + 32) else c)"

definition lower :: "string \<Rightarrow> string" where
  "lower s = map lower_cp s"

text \<open>
  \<^verbatim>\<open>str.lower()\<close> and \<^verbatim>\<open>str.upper()\<close> beyond the code points below 256.  Python maps a
  string code point by code point with the Unicode case tables (the one rule that looks at
  the neighbours, the final sigma, concerns U+03A3 only), and a code point may map to
  several.  The two tables are given here, on code point numbers, for the code points
  below 256 and the five that case mapping reaches from them: U+0130 (304, capital I with
  dot above, lowered to \<^verbatim>\<open>i\<close> and U+0307), U+0178 (376), U+0307 (775), U+039C (924) and
  U+03BC (956).  \<^verbatim>\<open>str.upper()\<close> is not called by the code; the specification states
  case-insensitivity with it.  It turns the sharp s U+00DF (223) into the two letters
  \<^verbatim>\<open>SS\<close>, the micro sign U+00B5 (181) into U+039C and the y with diaeresis U+00FF (255)
  into U+0178.  For every other code point the result is \<open>None\<close>: that part of the
  library's tables is not modelled, and nothing is stated about a string that has one.
\<close>

definition lower_table :: "nat \<Rightarrow> nat list option" where
  "lower_table n =
     (if n < 256 then
        Some [if (65 \<le> n \<and> n \<le> 90) \<or> (192 \<le> n \<and> n \<le> 214) \<or> (216 \<le> n \<and> n \<le> 222)
              then n + 32 else n]
      else if n = 304 then Some [105, 775]
      else if n = 376 then Some [255]
      else if n = 924 then Some [956]
      else if n = 775 \<or> n = 956 then Some [n]
      else None)"

definition upper_table :: "nat \<Rightarrow> nat list option" where
  "upper_table n =
     (if n = 223 then Some [83, 83]
      else if n = 181 then Some [924]
      else if n = 255 then Some [376]
      else if n < 256 then
        Some [if (97 \<le> n \<and> n \<le> 122) \<or> (224 \<le> n \<and> n \<le> 246) \<or> (248 \<le> n \<and> n \<le> 254)
              then n - 32 else n]
      else if n = 956 then Some [924]
      else if n = 304 \<or> n = 376 \<or> n = 775 \<or> n = 924 then Some [n]
      else None)"

fun str_case :: "(nat \<Rightarrow> nat list option) \<Rightarrow> nat list \<Rightarrow> nat list option" where
  "str_case table [] = Some []"
| "str_case table (n # ns) =
     (case table n of
        None \<Rightarrow> None
      | Some w \<Rightarrow> (case str_case table ns of None \<Rightarrow> None | Some ws \<Rightarrow> Some (w @ ws)))"

definition str_lower :: "nat list \<Rightarrow> nat list option" where
  "str_lower s = str_case lower_table s"

definition str_upper :: "nat list \<Rightarrow> nat list option" where
  "str_upper s = str_case upper_table s"

text \<open>
  \<^verbatim>\<open>Levenshtein.distance(s1, s2)\<close> with its default weights is the edit distance: the least
  number of insertions, deletions and substitutions of one code point that turn \<^verbatim>\<open>s1\<close>
  into \<^verbatim>\<open>s2\<close>.  It is given here by the recurrence on the first code points of the two
  strings: delete the first of \<^verbatim>\<open>s1\<close>, insert the first of \<^verbatim>\<open>s2\<close>, or line the two up
  (at cost 1 when they differ).
\<close>

fun levenshtein_distance :: "'a list \<Rightarrow> 'a list \<Rightarrow> nat" where
  "levenshtein_distance [] ys = length ys"
| "levenshtein_distance (x # xs) [] = Suc (length xs)"
| "levenshtein_distance (x # xs) (y # ys) =
     min (min (levenshtein_distance xs (y # ys) + 1) (levenshtein_distance (x # xs) ys + 1))
         (levenshtein_distance xs ys + (if x = y then 0 else 1))"

text \<open>
  The recurrence branches three ways at every pair of code points.  For evaluation the
  same numbers are computed row by row, as the table of the dynamic program is filled:
  \<open>lev_row y xs r\<close> takes the row \<open>r\<close> of the distances from every suffix of \<open>xs\<close> to
  some \<open>ys\<close> and returns the row of the distances to \<open>y # ys\<close>.  That the two agree is
  proved below (\<open>levenshtein_distance_code\<close>).
\<close>

fun tails :: "'a list \<Rightarrow> 'a list list" where
  "tails [] = [[]]"
| "tails (x # xs) = (x # xs) # tails xs"

fun lev_row :: "'a \<Rightarrow> 'a list \<Rightarrow> nat list \<Rightarrow> nat list" where
  "lev_row y (x # xs) (up # diag # r) =
     (case lev_row y xs (diag # r) of
        left # rest \<Rightarrow>
          min (min (Suc left) (Suc up)) (if x = y then diag else Suc diag) # left # rest
      | [] \<Rightarrow> [])"
| "lev_row y [] [d] = [Suc d]"
| "lev_row y _ _ = []"

fun lev_rows :: "'a list \<Rightarrow> 'a list \<Rightarrow> nat list" where
  "lev_rows xs [] = map length (tails xs)"
| "lev_rows xs (y # ys) = lev_row y xs (lev_rows xs ys)"

subsection \<open>\<^verbatim>\<open>calculate_similarity\<close> and \<^verbatim>\<open>find_best_match\<close>\<close>

text \<open>
  \<^verbatim>\<open>return Levenshtein.distance(col1.lower(), col2.lower())\<close>
\<close>

definition calculate_similarity :: "string \<Rightarrow> string \<Rightarrow> nat" where
  "calculate_similarity col1 col2 = levenshtein_distance (lower col1) (lower col2)"

text \<open>
  The same function with \<^verbatim>\<open>str.lower()\<close> as a parameter, on strings over any type of
  code points: what \<^verbatim>\<open>calculate_similarity\<close> computes whatever the case table of the
  library is.
\<close>

definition similarity_with :: "('c list \<Rightarrow> 'c list) \<Rightarrow> 'c list \<Rightarrow> 'c list \<Rightarrow> nat" where
  "similarity_with low col1 col2 = levenshtein_distance (low col1) (low col2)"

text \<open>
  And on code point numbers, with the tables above; \<open>None\<close> when a string has a code
  point outside the tables.
\<close>

definition similarity_cp :: "nat list \<Rightarrow> nat list \<Rightarrow> nat option" where
  "similarity_cp col1 col2 =
     (case str_lower col1 of
        None \<Rightarrow> None
      | Some l1 \<Rightarrow>
          (case str_lower col2 of
             None \<Rightarrow> None
           | Some l2 \<Rightarrow> Some (levenshtein_distance l1 l2)))"

text \<open>
  The loop of \<^verbatim>\<open>find_best_match\<close> over \<^verbatim>\<open>source_cols\<close>, with its two variables as
  arguments: \<^verbatim>\<open>best_match\<close> (\<^verbatim>\<open>None\<close> or a string) and \<^verbatim>\<open>best_distance\<close>, which
  starts at \<^verbatim>\<open>float('inf')\<close> and is a distance afterwards, hence an \<^typ>\<open>enat\<close>.
\<close>

fun find_best_match_loop :: "string \<Rightarrow> string list \<Rightarrow> string option \<Rightarrow> enat \<Rightarrow> string option" where
  "find_best_match_loop target_col [] best_match best_distance = best_match"
| "find_best_match_loop target_col (source_col # source_cols) best_match best_distance =
     (let distance = calculate_similarity target_col source_col
      in if distance \<le> 3 \<and> enat distance < best_distance
         then find_best_match_loop target_col source_cols (Some source_col) (enat distance)
         else find_best_match_loop target_col source_cols best_match best_distance)"

definition find_best_match :: "string \<Rightarrow> string list \<Rightarrow> string option" where
  "find_best_match target_col source_cols =
     find_best_match_loop target_col source_cols None \<infinity>"

subsection \<open>\<^verbatim>\<open>create_decision_table\<close>\<close>

text \<open>
  The two data frames have the columns \<^verbatim>\<open>column_name\<close> and \<^verbatim>\<open>comment\<close>; a frame is
  the list of its rows, in row order.  The function collects one dictionary per row of
  \<^verbatim>\<open>tabo_metadata\<close>, with the six keys below, and makes a frame of them.
\<close>

record column_metadata =
  column_name :: string
  comment :: string

record decision_row =
  sostituire :: bool
  colonna_tabo :: string
  comment_tabo :: string
  colonna_tabi :: string
  comment_tabi :: string
  descrizione_proposta :: string

datatype py_error = IndexError

text \<open>
  \<^verbatim>\<open>tabi_metadata[tabi_metadata['column_name'] == best_match]['comment'].iloc[0]\<close>:
  the rows named \<^verbatim>\<open>best_match\<close> are selected in row order and the comment of the first
  is read; \<^verbatim>\<open>.iloc[0]\<close> raises \<^verbatim>\<open>IndexError\<close> when the selection is empty.
\<close>

definition first_comment :: "column_metadata list \<Rightarrow> string \<Rightarrow> py_error + string" where
  "first_comment tabi_metadata best_match =
     (case filter (\<lambda>r. column_name r = best_match) tabi_metadata of
        [] \<Rightarrow> Inl IndexError
      | r # _ \<Rightarrow> Inr (comment r))"

text \<open>
  The block \<^verbatim>\<open>if best_match:\<close> with the two assignments before it.  A \<^verbatim>\<open>None\<close> and an
  empty string are both false in Python.  The result is the set \<^verbatim>\<open>used_tabi_cols\<close>
  after the block, \<^verbatim>\<open>tabi_col\<close> and \<^verbatim>\<open>tabi_comment\<close>.
\<close>

definition take_match ::
  "column_metadata list \<Rightarrow> string set \<Rightarrow> string option \<Rightarrow> py_error + (string set \<times> string \<times> string)" where
  "take_match tabi_metadata used_tabi_cols best_match =
     (case best_match of
        None \<Rightarrow> Inr (used_tabi_cols, [], [])
      | Some m \<Rightarrow>
          if m \<noteq> [] then
            (case first_comment tabi_metadata m of
               Inl e \<Rightarrow> Inl e
             | Inr c \<Rightarrow> Inr (insert m used_tabi_cols, m, c))
          else Inr (used_tabi_cols, [], []))"

text \<open>The chain \<^verbatim>\<open>if tabo_comment: ... elif tabi_comment: ... else: ...\<close>.\<close>

definition proposed :: "string \<Rightarrow> string \<Rightarrow> string" where
  "proposed tabo_comment tabi_comment =
     (if tabo_comment \<noteq> [] then tabo_comment
      else if tabi_comment \<noteq> [] then tabi_comment
      else [])"

text \<open>One pass of the body of \<^verbatim>\<open>for _, tabo_row in tabo_metadata.iterrows()\<close>.\<close>

definition decision_step ::
  "column_metadata list \<Rightarrow> string set \<Rightarrow> column_metadata \<Rightarrow> py_error + (string set \<times> decision_row)" where
  "decision_step tabi_metadata used_tabi_cols tabo_row =
     (let tabo_col = column_name tabo_row;
          tabo_comment = comment tabo_row;
          available_tabi_cols =
            filter (\<lambda>col. col \<notin> used_tabi_cols) (map column_name tabi_metadata);
          best_match = find_best_match tabo_col available_tabi_cols
      in case take_match tabi_metadata used_tabi_cols best_match of
           Inl e \<Rightarrow> Inl e
         | Inr (used', tabi_col, tabi_comment) \<Rightarrow>
             Inr (used',
                  \<lparr>sostituire = True,
                   colonna_tabo = tabo_col,
                   comment_tabo = tabo_comment,
                   colonna_tabi = tabi_col,
                   comment_tabi = tabi_comment,
                   descrizione_proposta = proposed tabo_comment tabi_comment\<rparr>))"

text \<open>
  The loop, with \<^verbatim>\<open>used_tabi_cols\<close> and \<^verbatim>\<open>decision_data\<close> as arguments; an exception
  leaves it at once.  The set is returned with the rows so that statements about it can
  be made; \<^verbatim>\<open>create_decision_table\<close> returns the rows only.
\<close>

fun decision_loop ::
  "column_metadata list \<Rightarrow> column_metadata list \<Rightarrow> string set \<Rightarrow> decision_row list
     \<Rightarrow> py_error + (string set \<times> decision_row list)" where
  "decision_loop tabi_metadata [] used_tabi_cols decision_data =
     Inr (used_tabi_cols, decision_data)"
| "decision_loop tabi_metadata (tabo_row # rest) used_tabi_cols decision_data =
     (case decision_step tabi_metadata used_tabi_cols tabo_row of
        Inl e \<Rightarrow> Inl e
      | Inr (used', row) \<Rightarrow> decision_loop tabi_metadata rest used' (decision_data @ [row]))"

definition create_decision_table ::
  "column_metadata list \<Rightarrow> column_metadata list \<Rightarrow> py_error + decision_row list" where
  "create_decision_table tabi_metadata tabo_metadata =
     (case decision_loop tabi_metadata tabo_metadata {} [] of
        Inl e \<Rightarrow> Inl e
      | Inr (used, decision_data) \<Rightarrow> Inr decision_data)"

section \<open>Evaluating the edit distance\<close>

lemma tails_Cons: "tails xs = xs # tl (tails xs)"
  by (cases xs) auto

lemma levenshtein_distance_Nil2: "levenshtein_distance xs [] = length xs"
  by (cases xs) auto

lemma lev_row_correct:
  "lev_row y xs (map (\<lambda>s. levenshtein_distance s ys) (tails xs)) =
     map (\<lambda>s. levenshtein_distance s (y # ys)) (tails xs)"
proof (induction xs)
  case Nil
  show ?case by simp
next
  case (Cons x xs)
  obtain ts where ts: "tails xs = xs # ts"
    using tails_Cons by blast
  from Cons ts show ?case by simp
qed

lemma lev_rows_correct:
  "lev_rows xs ys = map (\<lambda>s. levenshtein_distance s ys) (tails xs)"
  by (induction ys) (simp_all add: levenshtein_distance_Nil2 lev_row_correct)

lemma levenshtein_distance_code [code]:
  "levenshtein_distance xs ys = hd (lev_rows xs ys)"
  by (subst lev_rows_correct, subst tails_Cons) simp

section \<open>The matcher\<close>

text \<open>
  What the loop of \<^verbatim>\<open>find_best_match\<close> returns, from any state of its two variables:
  either nothing more qualified and the result is the \<^verbatim>\<open>best_match\<close> it started with,
  or the result is a candidate that beat \<^verbatim>\<open>best_distance\<close>, with every candidate before
  it strictly farther from the target and no candidate after it closer.
\<close>

lemma find_best_match_loop_None:
  "find_best_match_loop t cs bm bd = None \<longleftrightarrow>
     bm = None \<and> (\<forall>c\<in>set cs. \<not> (calculate_similarity t c \<le> 3 \<and> enat (calculate_similarity t c) < bd))"
  by (induction cs arbitrary: bm bd) (auto simp: Let_def)

lemma find_best_match_loop_Some:
  "find_best_match_loop t cs bm bd = Some m \<Longrightarrow>
     (bm = Some m \<and>
        (\<forall>c\<in>set cs. \<not> (calculate_similarity t c \<le> 3 \<and> enat (calculate_similarity t c) < bd)))
   \<or> (\<exists>pre post. cs = pre @ m # post \<and>
         calculate_similarity t m \<le> 3 \<and> enat (calculate_similarity t m) < bd \<and>
         (\<forall>c\<in>set pre. calculate_similarity t m < calculate_similarity t c) \<and>
         (\<forall>c\<in>set post. calculate_similarity t m \<le> calculate_similarity t c))"
proof (induction cs arbitrary: bm bd)
  case Nil
  then show ?case by simp
next
  case (Cons s ss)
  let ?d = "calculate_similarity t s"
  show ?case
  proof (cases "?d \<le> 3 \<and> enat ?d < bd")
    case True
    with Cons.prems have run: "find_best_match_loop t ss (Some s) (enat ?d) = Some m"
      by (simp add: Let_def)
    from Cons.IH [OF run] show ?thesis
    proof (elim disjE conjE exE)
      assume eq: "Some s = Some m"
        and rest: "\<forall>c\<in>set ss. \<not> (calculate_similarity t c \<le> 3 \<and> enat (calculate_similarity t c) < enat ?d)"
      from eq have sm: "s = m" by simp
      have "\<forall>c\<in>set ss. calculate_similarity t m \<le> calculate_similarity t c"
        using rest True sm by (auto simp: not_less)
      with True sm have
        "s # ss = [] @ m # ss \<and> calculate_similarity t m \<le> 3 \<and> enat (calculate_similarity t m) < bd \<and>
         (\<forall>c\<in>set []. calculate_similarity t m < calculate_similarity t c) \<and>
         (\<forall>c\<in>set ss. calculate_similarity t m \<le> calculate_similarity t c)"
        by simp
      then show ?thesis by blast
    next
      fix pre post
      assume split: "ss = pre @ m # post"
        and le3: "calculate_similarity t m \<le> 3"
        and lt: "enat (calculate_similarity t m) < enat ?d"
        and before: "\<forall>c\<in>set pre. calculate_similarity t m < calculate_similarity t c"
        and after: "\<forall>c\<in>set post. calculate_similarity t m \<le> calculate_similarity t c"
      from lt True have "enat (calculate_similarity t m) < bd"
        by (meson less_trans)
      moreover from lt before have "\<forall>c\<in>set (s # pre). calculate_similarity t m < calculate_similarity t c"
        by simp
      moreover from split have "s # ss = (s # pre) @ m # post" by simp
      ultimately show ?thesis using le3 after by blast
    qed
  next
    case False
    with Cons.prems have run: "find_best_match_loop t ss bm bd = Some m"
      by (auto simp: Let_def)
    from Cons.IH [OF run] show ?thesis
    proof (elim disjE conjE exE)
      assume "bm = Some m"
        and "\<forall>c\<in>set ss. \<not> (calculate_similarity t c \<le> 3 \<and> enat (calculate_similarity t c) < bd)"
      with False show ?thesis by simp
    next
      fix pre post
      assume split: "ss = pre @ m # post"
        and le3: "calculate_similarity t m \<le> 3"
        and lt: "enat (calculate_similarity t m) < bd"
        and before: "\<forall>c\<in>set pre. calculate_similarity t m < calculate_similarity t c"
        and after: "\<forall>c\<in>set post. calculate_similarity t m \<le> calculate_similarity t c"
      have "calculate_similarity t m < ?d"
      proof (cases "?d \<le> 3")
        case True
        with False have "bd \<le> enat ?d" by (simp add: not_less)
        with lt have "enat (calculate_similarity t m) < enat ?d" by (rule less_le_trans)
        then show ?thesis by simp
      next
        case False
        with le3 show ?thesis by simp
      qed
      with before have "\<forall>c\<in>set (s # pre). calculate_similarity t m < calculate_similarity t c"
        by simp
      moreover from split have "s # ss = (s # pre) @ m # post" by simp
      ultimately show ?thesis using le3 lt after by blast
    qed
  qed
qed

lemma find_best_match_None:
  "find_best_match t cs = None \<longleftrightarrow> (\<forall>c\<in>set cs. \<not> calculate_similarity t c \<le> 3)"
  by (simp add: find_best_match_def find_best_match_loop_None)

lemma find_best_match_Some:
  assumes "find_best_match t cs = Some m"
  shows "\<exists>pre post. cs = pre @ m # post \<and> calculate_similarity t m \<le> 3 \<and>
           (\<forall>c\<in>set pre. calculate_similarity t m < calculate_similarity t c) \<and>
           (\<forall>c\<in>set post. calculate_similarity t m \<le> calculate_similarity t c)"
  using find_best_match_loop_Some [of t cs None \<infinity> m] assms
  unfolding find_best_match_def by auto

lemma find_best_match_in_set:
  "find_best_match t cs = Some m \<Longrightarrow> m \<in> set cs \<and> calculate_similarity t m \<le> 3"
  using find_best_match_Some [of t cs m] by auto

text \<open>
  Claim C4.  \<^verbatim>\<open>find_best_match(target, candidates)\<close> returns a match if and only if some
  candidate has a score of at most 3 against the target; a returned match is one of the
  candidates and its score is at most 3, so no candidate with a score above 3 is ever
  returned; for the empty candidate list the result is \<^verbatim>\<open>None\<close>, whatever the target.
\<close>

theorem find_best_match_threshold:
  "(find_best_match t cs \<noteq> None \<longleftrightarrow> (\<exists>c\<in>set cs. calculate_similarity t c \<le> 3)) \<and>
   (\<forall>m. find_best_match t cs = Some m \<longrightarrow> m \<in> set cs \<and> calculate_similarity t m \<le> 3) \<and>
   find_best_match t [] = None"
  using find_best_match_None [of t cs] find_best_match_in_set [of t cs]
  by (auto simp: find_best_match_def)

theorem find_best_match_threshold_witness:
  "find_best_match ''firstname'' [''customer_id'', ''first_name'', ''email''] = Some ''first_name'' \<and>
   ''first_name'' \<in> set [''customer_id'', ''first_name'', ''email''] \<and>
   calculate_similarity ''firstname'' ''first_name'' \<le> 3 \<and>
   (\<exists>c\<in>set [''customer_id'', ''first_name'', ''email'']. calculate_similarity ''firstname'' c \<le> 3)"
proof -
  have r: "find_best_match ''firstname'' [''customer_id'', ''first_name'', ''email''] = Some ''first_name''"
    by code_simp
  from find_best_match_threshold [of "''firstname''" "[''customer_id'', ''first_name'', ''email'']"] r
  show ?thesis by simp
qed

text \<open>
  Claim C5.  The scan keeps the minimum with strict improvement only.  When some
  candidate qualifies (score at most 3), the result is the candidate at a position \<open>i\<close>
  whose score is at most 3 and is the least score of the whole list, and every candidate
  at an earlier position has a strictly greater score: among the candidates tied at the
  minimal score the first in input order is returned.  The last part is the step of the
  loop itself: a candidate whose score equals the current \<^verbatim>\<open>best_distance\<close> leaves
  \<^verbatim>\<open>best_match\<close> and \<^verbatim>\<open>best_distance\<close> as they are.
\<close>

theorem find_best_match_first_minimal:
  assumes "\<exists>c\<in>set cs. calculate_similarity t c \<le> 3"
  shows "(\<exists>i<length cs. find_best_match t cs = Some (cs ! i) \<and>
           calculate_similarity t (cs ! i) \<le> 3 \<and>
           (\<forall>j<length cs. calculate_similarity t (cs ! i) \<le> calculate_similarity t (cs ! j)) \<and>
           (\<forall>j<i. calculate_similarity t (cs ! i) < calculate_similarity t (cs ! j))) \<and>
         (\<forall>s ss bm. find_best_match_loop t (s # ss) bm (enat (calculate_similarity t s)) =
                    find_best_match_loop t ss bm (enat (calculate_similarity t s)))"
proof -
  from assms obtain m where m: "find_best_match t cs = Some m"
    using find_best_match_None [of t cs] by (cases "find_best_match t cs") auto
  from find_best_match_Some [OF m] obtain pre post where
    split: "cs = pre @ m # post" and le3: "calculate_similarity t m \<le> 3" and
    before: "\<forall>c\<in>set pre. calculate_similarity t m < calculate_similarity t c" and
    after: "\<forall>c\<in>set post. calculate_similarity t m \<le> calculate_similarity t c"
    by blast
  let ?i = "length pre"
  have i: "?i < length cs" and at: "cs ! ?i = m"
    using split by simp_all
  have all: "\<forall>c\<in>set cs. calculate_similarity t m \<le> calculate_similarity t c"
    using split before after by (auto simp: less_imp_le)
  have "\<forall>j<length cs. calculate_similarity t m \<le> calculate_similarity t (cs ! j)"
    using all by simp
  moreover have "\<forall>j<?i. calculate_similarity t m < calculate_similarity t (cs ! j)"
    using before split by (simp add: nth_append)
  ultimately have "\<exists>i<length cs. find_best_match t cs = Some (cs ! i) \<and>
           calculate_similarity t (cs ! i) \<le> 3 \<and>
           (\<forall>j<length cs. calculate_similarity t (cs ! i) \<le> calculate_similarity t (cs ! j)) \<and>
           (\<forall>j<i. calculate_similarity t (cs ! i) < calculate_similarity t (cs ! j))"
    using i at m le3 by blast
  then show ?thesis by (simp add: Let_def)
qed


theorem find_best_match_first_minimal_witness:
  "(\<exists>c\<in>set [''zzzzzz'', ''ac'', ''ad'']. calculate_similarity ''ab'' c \<le> 3) \<and>
   find_best_match ''ab'' [''zzzzzz'', ''ac'', ''ad''] = Some ''ac'' \<and>
   calculate_similarity ''ab'' ''ac'' = calculate_similarity ''ab'' ''ad'' \<and>
   (\<exists>i<length [''zzzzzz'', ''ac'', ''ad''].
      find_best_match ''ab'' [''zzzzzz'', ''ac'', ''ad''] = Some ([''zzzzzz'', ''ac'', ''ad''] ! i) \<and>
      (\<forall>j<i. calculate_similarity ''ab'' ([''zzzzzz'', ''ac'', ''ad''] ! i)
               < calculate_similarity ''ab'' ([''zzzzzz'', ''ac'', ''ad''] ! j)))"
proof -
  have q: "calculate_similarity ''ab'' ''ac'' \<le> 3"
    by code_simp
  then have h: "\<exists>c\<in>set [''zzzzzz'', ''ac'', ''ad'']. calculate_similarity ''ab'' c \<le> 3"
    by simp
  have r: "find_best_match ''ab'' [''zzzzzz'', ''ac'', ''ad''] = Some ''ac''"
    by code_simp
  have e: "calculate_similarity ''ab'' ''ac'' = calculate_similarity ''ab'' ''ad''"
    by code_simp
  from find_best_match_first_minimal [OF h] h r e show ?thesis
    by blast
qed

section \<open>The decision table\<close>

text \<open>
  The lookup of the comment is the comment of the first row of \<^verbatim>\<open>tabi_metadata\<close> with
  the name looked up; it raises only for a name that no row has.
\<close>

lemma first_comment_find:
  "first_comment tabi m =
     (case find (\<lambda>r. column_name r = m) tabi of None \<Rightarrow> Inl IndexError | Some r \<Rightarrow> Inr (comment r))"
  by (induction tabi) (auto simp: first_comment_def)

lemma find_column_name:
  "m \<in> column_name ` set tabi \<Longrightarrow> \<exists>r. find (\<lambda>r. column_name r = m) tabi = Some r \<and> column_name r = m"
  by (induction tabi) auto

text \<open>
  One pass of the loop never raises: a match comes from the candidate pool, hence from
  the names of \<^verbatim>\<open>tabi_metadata\<close>.  It emits either an unmatched row and leaves
  \<^verbatim>\<open>used_tabi_cols\<close> alone, or a row matched with a non-empty name that was not in
  \<^verbatim>\<open>used_tabi_cols\<close> and is added to it.
\<close>

lemma decision_step_result:
  "\<exists>used' d. decision_step tabi used t = Inr (used', d) \<and>
     sostituire d \<and> colonna_tabo d = column_name t \<and> comment_tabo d = comment t \<and>
     descrizione_proposta d = proposed (comment t) (comment_tabi d) \<and>
     (used' = used \<and> colonna_tabi d = [] \<and> comment_tabi d = [] \<or>
      colonna_tabi d \<noteq> [] \<and> colonna_tabi d \<notin> used \<and> used' = insert (colonna_tabi d) used \<and>
      find_best_match (column_name t)
        (filter (\<lambda>col. col \<notin> used) (map column_name tabi)) = Some (colonna_tabi d) \<and>
      (\<exists>r. find (\<lambda>r. column_name r = colonna_tabi d) tabi = Some r \<and> comment_tabi d = comment r))"
proof (cases "find_best_match (column_name t) (filter (\<lambda>col. col \<notin> used) (map column_name tabi))")
  case None
  then show ?thesis
    by (simp add: decision_step_def take_match_def Let_def)
next
  case (Some m)
  show ?thesis
  proof (cases "m = []")
    case True
    with Some show ?thesis
      by (simp add: decision_step_def take_match_def Let_def)
  next
    case False
    from find_best_match_in_set [OF Some]
    have avail: "m \<in> column_name ` set tabi" and fresh: "m \<notin> used"
      by auto
    from find_column_name [OF avail] obtain r where
      r: "find (\<lambda>r. column_name r = m) tabi = Some r"
      by blast
    from Some False fresh r show ?thesis
      by (simp add: decision_step_def take_match_def first_comment_find Let_def)
  qed
qed

lemma decision_loop_rows:
  "\<exists>used' rows. decision_loop tabi tabo used acc = Inr (used', acc @ rows) \<and>
     list_all2 (\<lambda>t d. sostituire d \<and> colonna_tabo d = column_name t \<and> comment_tabo d = comment t \<and>
        descrizione_proposta d = proposed (comment t) (comment_tabi d) \<and>
        (colonna_tabi d = [] \<and> comment_tabi d = [] \<or>
         colonna_tabi d \<noteq> [] \<and>
         (\<exists>r. find (\<lambda>r. column_name r = colonna_tabi d) tabi = Some r \<and> comment_tabi d = comment r)))
       tabo rows"
proof (induction tabo arbitrary: used acc)
  case Nil
  show ?case by simp
next
  case (Cons t ts)
  from decision_step_result [of tabi used t] obtain used1 d where
    step: "decision_step tabi used t = Inr (used1, d)" and
    d: "sostituire d \<and> colonna_tabo d = column_name t \<and> comment_tabo d = comment t \<and>
        descrizione_proposta d = proposed (comment t) (comment_tabi d) \<and>
        (colonna_tabi d = [] \<and> comment_tabi d = [] \<or>
         colonna_tabi d \<noteq> [] \<and>
         (\<exists>r. find (\<lambda>r. column_name r = colonna_tabi d) tabi = Some r \<and> comment_tabi d = comment r))"
    by blast
  from Cons.IH [of used1 "acc @ [d]"] obtain used' rows where
    rest: "decision_loop tabi ts used1 (acc @ [d]) = Inr (used', (acc @ [d]) @ rows)" and
    rows: "list_all2 (\<lambda>t d. sostituire d \<and> colonna_tabo d = column_name t \<and> comment_tabo d = comment t \<and>
        descrizione_proposta d = proposed (comment t) (comment_tabi d) \<and>
        (colonna_tabi d = [] \<and> comment_tabi d = [] \<or>
         colonna_tabi d \<noteq> [] \<and>
         (\<exists>r. find (\<lambda>r. column_name r = colonna_tabi d) tabi = Some r \<and> comment_tabi d = comment r)))
       ts rows"
    by blast
  from step rest have "decision_loop tabi (t # ts) used acc = Inr (used', acc @ (d # rows))"
    by simp
  moreover from d rows have "list_all2 (\<lambda>t d. sostituire d \<and> colonna_tabo d = column_name t \<and> comment_tabo d = comment t \<and>
        descrizione_proposta d = proposed (comment t) (comment_tabi d) \<and>
        (colonna_tabi d = [] \<and> comment_tabi d = [] \<or>
         colonna_tabi d \<noteq> [] \<and>
         (\<exists>r. find (\<lambda>r. column_name r = colonna_tabi d) tabi = Some r \<and> comment_tabi d = comment r)))
       (t # ts) (d # rows)"
    by simp
  ultimately show ?case by blast
qed

lemma decision_loop_used:
  assumes "decision_loop tabi tabo used acc = Inr (used', out)"
    and "\<forall>d\<in>set acc. colonna_tabi d \<noteq> [] \<longrightarrow> colonna_tabi d \<in> used"
    and "distinct (filter (\<lambda>s. s \<noteq> []) (map colonna_tabi acc))"
    and "[] \<notin> used"
  shows "(\<forall>d\<in>set out. colonna_tabi d \<noteq> [] \<longrightarrow> colonna_tabi d \<in> used') \<and>
         distinct (filter (\<lambda>s. s \<noteq> []) (map colonna_tabi out)) \<and> [] \<notin> used' \<and> used \<subseteq> used'"
  using assms
proof (induction tabo arbitrary: used acc)
  case Nil
  then show ?case by simp
next
  case (Cons t ts)
  from decision_step_result [of tabi used t] obtain used1 d where
    step: "decision_step tabi used t = Inr (used1, d)" and
    d: "used1 = used \<and> colonna_tabi d = [] \<or>
        colonna_tabi d \<noteq> [] \<and> colonna_tabi d \<notin> used \<and> used1 = insert (colonna_tabi d) used"
    by blast
  from step Cons.prems(1) have run: "decision_loop tabi ts used1 (acc @ [d]) = Inr (used', out)"
    by simp
  have a: "\<forall>e\<in>set (acc @ [d]). colonna_tabi e \<noteq> [] \<longrightarrow> colonna_tabi e \<in> used1"
    using d Cons.prems(2) by auto
  have b: "distinct (filter (\<lambda>s. s \<noteq> []) (map colonna_tabi (acc @ [d])))"
    using d Cons.prems(2,3) by auto
  have c: "[] \<notin> used1"
    using d Cons.prems(4) by auto
  from Cons.IH [OF run a b c] d show ?case by auto
qed

section \<open>The similarity scorer\<close>

lemma levenshtein_distance_commute:
  "levenshtein_distance xs ys = levenshtein_distance ys xs"
proof (induction xs ys rule: levenshtein_distance.induct)
  case (1 ys)
  show ?case by (simp add: levenshtein_distance_Nil2)
next
  case (2 x xs)
  show ?case by simp
next
  case (3 x xs y ys)
  then show ?case
    by (simp add: min.commute eq_commute [of x y])
qed

lemma levenshtein_distance_same: "levenshtein_distance xs xs = 0"
  by (induction xs) simp_all

lemma levenshtein_distance_of_char:
  "levenshtein_distance (map of_char xs :: nat list) (map of_char ys) = levenshtein_distance xs ys"
  by (induction xs ys rule: levenshtein_distance.induct) simp_all

lemma of_char_less_256: "(of_char c :: nat) < 256"
  by (metis of_char_mod_256 mod_less_divisor zero_less_numeral)

lemma lower_cp_idem: "lower_cp (lower_cp c) = lower_cp c"
  using of_char_less_256 [of c] by (auto simp: lower_cp_def Let_def)

lemma lower_idem: "lower (lower s) = lower s"
  by (simp add: lower_def lower_cp_idem)

lemma length_lower: "length (lower s) = length s"
  by (simp add: lower_def)

lemma lower_table_of_char: "lower_table (of_char c) = Some [of_char (lower_cp c)]"
  using of_char_less_256 [of c] by (auto simp: lower_table_def lower_cp_def Let_def)

lemma str_lower_of_char: "str_lower (map of_char s) = Some (map of_char (lower s))"
  by (induction s) (simp_all add: str_lower_def lower_def lower_table_of_char)

lemma similarity_cp_of_char:
  "similarity_cp (map of_char s) (map of_char t) = Some (calculate_similarity s t)"
  by (simp add: similarity_cp_def str_lower_of_char calculate_similarity_def
      levenshtein_distance_of_char)

lemma str_case_append:
  "str_case table (xs @ ys) =
     (case str_case table xs of
        None \<Rightarrow> None
      | Some a \<Rightarrow> (case str_case table ys of None \<Rightarrow> None | Some b \<Rightarrow> Some (a @ b)))"
  by (induction xs) (auto split: option.splits)

lemma lower_table_idem: "lower_table n = Some w \<Longrightarrow> str_lower w = Some w"
  by (auto simp: lower_table_def str_lower_def split: if_splits)

lemma str_lower_idem: "str_lower a = Some x \<Longrightarrow> str_lower x = Some x"
proof (induction a arbitrary: x)
  case Nil
  then show ?case by (simp add: str_lower_def)
next
  case (Cons n ns)
  from Cons.prems obtain w ws where
    w: "lower_table n = Some w" and ws: "str_lower ns = Some ws" and x: "x = w @ ws"
    by (auto simp: str_lower_def split: option.splits)
  from lower_table_idem [OF w] Cons.IH [OF ws] x show ?case
    by (simp add: str_lower_def str_case_append)
qed

lemma upper_table_lower:
  "upper_table n = Some u \<Longrightarrow> n \<noteq> 223 \<Longrightarrow> n \<noteq> 181 \<Longrightarrow>
     \<exists>w. lower_table n = Some w \<and> str_lower u = Some w"
  by (auto simp: upper_table_def lower_table_def str_lower_def split: if_splits)

lemma str_upper_lower:
  "str_upper b = Some v \<Longrightarrow> 223 \<notin> set b \<Longrightarrow> 181 \<notin> set b \<Longrightarrow>
     \<exists>w. str_lower b = Some w \<and> str_lower v = Some w"
proof (induction b arbitrary: v)
  case Nil
  then show ?case by (simp add: str_upper_def str_lower_def)
next
  case (Cons n ns)
  from Cons.prems(1) obtain u us where
    u: "upper_table n = Some u" and us: "str_upper ns = Some us" and v: "v = u @ us"
    by (auto simp: str_upper_def split: option.splits)
  from Cons.prems(2,3) have n: "n \<noteq> 223" "n \<noteq> 181" and ns: "223 \<notin> set ns" "181 \<notin> set ns"
    by auto
  from upper_table_lower [OF u n] obtain w where
    w: "lower_table n = Some w" "str_lower u = Some w"
    by blast
  from Cons.IH [OF us ns] obtain ws where
    ws: "str_lower ns = Some ws" "str_lower us = Some ws"
    by blast
  from w ws v show ?case
    by (simp add: str_lower_def str_case_append)
qed

lemma similarity_cp_upper:
  assumes "str_lower p = Some x" and "str_upper q = Some v"
    and "223 \<notin> set q" and "181 \<notin> set q"
  shows "similarity_cp p q \<noteq> None \<and> similarity_cp p q = similarity_cp x v"
proof -
  from str_upper_lower [OF assms(2,3,4)] obtain w where
    w: "str_lower q = Some w" "str_lower v = Some w"
    by blast
  from str_lower_idem [OF assms(1)] assms(1) w show ?thesis
    by (simp add: similarity_cp_def)
qed

text \<open>
  Claim C6, as amended.  For all strings \<open>a\<close> and \<open>b\<close>, over any code points and
  whatever function \<^verbatim>\<open>str.lower()\<close> is: the score is symmetric, and the score of a string
  against itself is 0.  When either input is the empty string, the score is the length of
  the other string after lowering; that is the length of the other string where lowering
  keeps the length, as it does for the strings of code points below 256.  And
  \<^verbatim>\<open>score(a, b) == score(a.lower(), b.upper())\<close> holds whenever
  \<^verbatim>\<open>a.lower().lower() == a.lower()\<close> and \<^verbatim>\<open>b.upper().lower() == b.lower()\<close>; on the
  tables modelled that is every \<open>a\<close>, and every \<open>b\<close> without a sharp s (U+00DF) and
  without a micro sign (U+00B5).  On strings of code points below 256 the three models
  of the scorer agree.  The claim states the empty-string clause with the length of the
  other string itself, and the equation with \<^verbatim>\<open>upper\<close> for all strings; both fail, as the
  counterexample below shows.
\<close>

theorem calculate_similarity_properties:
  "similarity_with low a b = similarity_with low b a \<and>
   similarity_with low a a = 0 \<and>
   (low [] = [] \<longrightarrow>
      similarity_with low [] b = length (low b) \<and> similarity_with low b [] = length (low b)) \<and>
   (\<forall>u. low (low a) = low a \<and> low u = low b \<longrightarrow>
      similarity_with low a b = similarity_with low (low a) u) \<and>
   calculate_similarity s t = similarity_with lower s t \<and>
   calculate_similarity s t = calculate_similarity t s \<and>
   calculate_similarity s s = 0 \<and>
   calculate_similarity [] t = length t \<and>
   calculate_similarity s [] = length s \<and>
   similarity_cp (map of_char s) (map of_char t) = Some (calculate_similarity s t) \<and>
   (\<forall>x v. str_lower p = Some x \<and> str_upper q = Some v \<and> 223 \<notin> set q \<and> 181 \<notin> set q \<longrightarrow>
      similarity_cp p q \<noteq> None \<and> similarity_cp p q = similarity_cp x v)"
proof -
  have g: "similarity_with low a b = similarity_with low b a \<and>
   similarity_with low a a = 0 \<and>
   (low [] = [] \<longrightarrow>
      similarity_with low [] b = length (low b) \<and> similarity_with low b [] = length (low b)) \<and>
   (\<forall>u. low (low a) = low a \<and> low u = low b \<longrightarrow>
      similarity_with low a b = similarity_with low (low a) u)"
    by (auto simp: similarity_with_def levenshtein_distance_commute [of "low a"]
        levenshtein_distance_same levenshtein_distance_Nil2)
  have i: "calculate_similarity s t = similarity_with lower s t \<and>
   calculate_similarity s t = calculate_similarity t s \<and>
   calculate_similarity s s = 0 \<and>
   calculate_similarity [] t = length t \<and>
   calculate_similarity s [] = length s"
    by (simp add: calculate_similarity_def similarity_with_def levenshtein_distance_commute [of "lower s"]
        levenshtein_distance_same levenshtein_distance_Nil2 length_lower lower_def [of "[]"])
  have c: "\<forall>x v. str_lower p = Some x \<and> str_upper q = Some v \<and> 223 \<notin> set q \<and> 181 \<notin> set q \<longrightarrow>
      similarity_cp p q \<noteq> None \<and> similarity_cp p q = similarity_cp x v"
    using similarity_cp_upper [of p _ q] by blast
  from g i c similarity_cp_of_char [of s t] show ?thesis
    by (intro conjI) blast+
qed

theorem calculate_similarity_properties_witness:
  "lower [] = [] \<and>
   lower (lower ''firstname'') = lower ''firstname'' \<and>
   lower ''FIRST_NAME'' = lower ''First_Name'' \<and>
   similarity_with lower ''firstname'' ''First_Name'' =
     similarity_with lower (lower ''firstname'') ''FIRST_NAME'' \<and>
   similarity_with lower [] ''First_Name'' = length (lower ''First_Name'') \<and>
   str_lower [255] = Some [255] \<and> str_upper [255] = Some [376] \<and>
   223 \<notin> set [255 :: nat] \<and> 181 \<notin> set [255 :: nat] \<and>
   similarity_cp [255] [255] = similarity_cp [255] [376]"
proof -
  have h1: "lower [] = []"
    by (simp add: lower_def)
  have h2: "lower (lower ''firstname'') = lower ''firstname''"
    by code_simp
  have h3: "lower ''FIRST_NAME'' = lower ''First_Name''"
    by code_simp
  have h4: "str_lower [255] = Some [255]" and h5: "str_upper [255] = Some [376]"
    by (simp_all add: str_lower_def str_upper_def lower_table_def upper_table_def)
  have h6: "223 \<notin> set [255 :: nat]" and h7: "181 \<notin> set [255 :: nat]"
    by simp_all
  from calculate_similarity_properties [where low = lower and a = "''firstname''" and b = "''First_Name''"
      and s = "[]" and t = "[]" and p = "[255]" and q = "[255]"] h1 h2 h3 h4 h5 h6 h7
  show ?thesis by blast
qed

text \<open>
  Claim C6 as stated fails in two of its clauses.  The empty-string clause: the string of
  the one code point U+0130 has length 1, lowering gives two code points, and its score
  against the empty string is 2.  The equation with \<^verbatim>\<open>upper\<close>: for the column name
  \<^verbatim>\<open>stra\<close>, sharp s, \<^verbatim>\<open>e\<close> (the German word for street) taken for both \<open>a\<close> and \<open>b\<close>,
  \<^verbatim>\<open>b.upper()\<close> is \<^verbatim>\<open>STRASSE\<close> and \<^verbatim>\<open>a.lower()\<close> is \<open>a\<close>; the score of \<open>a\<close> against \<open>b\<close> is
  0 and the score of \<^verbatim>\<open>a.lower()\<close> against \<^verbatim>\<open>b.upper()\<close> is 2.  Likewise for the micro
  sign alone: its upper case is U+039C, whose lower case is U+03BC, at distance 1.
\<close>

theorem case_mapping_counterexample:
  "str_lower [304] = Some [105, 775] \<and>
   similarity_cp [] [304] = Some 2 \<and>
   length [304 :: nat] = 1 \<and>
   str_lower [115, 116, 114, 97, 223, 101] = Some [115, 116, 114, 97, 223, 101] \<and>
   str_upper [115, 116, 114, 97, 223, 101] = Some [83, 84, 82, 65, 83, 83, 69] \<and>
   similarity_cp [115, 116, 114, 97, 223, 101] [115, 116, 114, 97, 223, 101] = Some 0 \<and>
   similarity_cp [115, 116, 114, 97, 223, 101] [83, 84, 82, 65, 83, 83, 69] = Some 2 \<and>
   str_lower [181] = Some [181] \<and>
   str_upper [181] = Some [924] \<and>
   similarity_cp [181] [181] = Some 0 \<and>
   similarity_cp [181] [924] = Some 1"
  by (simp add: str_lower_def str_upper_def similarity_cp_def lower_table_def upper_table_def
      levenshtein_distance_code)

section \<open>The claims about the decision table\<close>

lemma list_all2_setD2:
  "list_all2 P xs ys \<Longrightarrow> d \<in> set ys \<Longrightarrow> \<exists>t\<in>set xs. P t d"
  by (induction rule: list_all2_induct) auto

lemma list_all2_map_eq:
  "list_all2 (\<lambda>t d. f d = g t) xs ys \<Longrightarrow> map f ys = map g xs"
  by (induction rule: list_all2_induct) auto

lemma create_decision_table_rows:
  "\<exists>rows. create_decision_table tabi tabo = Inr rows \<and>
     list_all2 (\<lambda>t d. sostituire d \<and> colonna_tabo d = column_name t \<and> comment_tabo d = comment t \<and>
        descrizione_proposta d = proposed (comment t) (comment_tabi d) \<and>
        (colonna_tabi d = [] \<and> comment_tabi d = [] \<or>
         colonna_tabi d \<noteq> [] \<and>
         (\<exists>r. find (\<lambda>r. column_name r = colonna_tabi d) tabi = Some r \<and> comment_tabi d = comment r)))
       tabo rows"
  using decision_loop_rows [of tabi tabo "{}" "[]"]
  by (auto simp: create_decision_table_def)

lemma create_decision_table_used:
  "\<exists>used' rows. decision_loop tabi tabo {} [] = Inr (used', rows) \<and>
     create_decision_table tabi tabo = Inr rows \<and>
     distinct (filter (\<lambda>s. s \<noteq> []) (map colonna_tabi rows)) \<and> [] \<notin> used'"
proof -
  from decision_loop_rows [of tabi tabo "{}" "[]"] obtain used' rows where
    run: "decision_loop tabi tabo {} [] = Inr (used', rows)"
    by auto
  from decision_loop_used [OF run] have
    "distinct (filter (\<lambda>s. s \<noteq> []) (map colonna_tabi rows)) \<and> [] \<notin> used'"
    by simp
  with run show ?thesis
    by (simp add: create_decision_table_def)
qed



lemma decision_loop_empty_source:
  "decision_loop [] tabo used acc =
     Inr (used, acc @ map (\<lambda>t. \<lparr>sostituire = True, colonna_tabo = column_name t,
       comment_tabo = comment t, colonna_tabi = [], comment_tabi = [],
       descrizione_proposta = comment t\<rparr>) tabo)"
  by (induction tabo arbitrary: acc)
     (simp_all add: decision_step_def find_best_match_def take_match_def proposed_def Let_def)

text \<open>
  Claim C1.  For every target column, in order, the row emitted carries the target's
  own comment, and its \<^verbatim>\<open>descrizione_proposta\<close> follows a fixed priority: the target's
  own comment when that is non-empty, whether or not a source column was matched;
  otherwise, when a source column was matched (\<^verbatim>\<open>colonna_tabi\<close> is non-empty), the
  comment of that source column when it is non-empty; otherwise the empty string.
\<close>

theorem proposed_comment_priority:
  "\<exists>rows. create_decision_table tabi tabo = Inr rows \<and> length rows = length tabo \<and>
     (\<forall>i<length tabo.
        comment_tabo (rows ! i) = comment (tabo ! i) \<and>
        (comment (tabo ! i) \<noteq> [] \<longrightarrow> descrizione_proposta (rows ! i) = comment (tabo ! i)) \<and>
        (comment (tabo ! i) = [] \<and> colonna_tabi (rows ! i) \<noteq> [] \<longrightarrow>
           (\<exists>r. find (\<lambda>r. column_name r = colonna_tabi (rows ! i)) tabi = Some r \<and>
                (comment r \<noteq> [] \<longrightarrow> descrizione_proposta (rows ! i) = comment r) \<and>
                (comment r = [] \<longrightarrow> descrizione_proposta (rows ! i) = []))) \<and>
        (comment (tabo ! i) = [] \<and> colonna_tabi (rows ! i) = [] \<longrightarrow>
           descrizione_proposta (rows ! i) = []))"
proof -
  from create_decision_table_rows [of tabi tabo] obtain rows where
    run: "create_decision_table tabi tabo = Inr rows" and
    rows: "list_all2 (\<lambda>t d. sostituire d \<and> colonna_tabo d = column_name t \<and> comment_tabo d = comment t \<and>
        descrizione_proposta d = proposed (comment t) (comment_tabi d) \<and>
        (colonna_tabi d = [] \<and> comment_tabi d = [] \<or>
         colonna_tabi d \<noteq> [] \<and>
         (\<exists>r. find (\<lambda>r. column_name r = colonna_tabi d) tabi = Some r \<and> comment_tabi d = comment r)))
       tabo rows"
    by blast
  from rows have len: "length rows = length tabo"
    by (simp add: list_all2_lengthD)
  have "comment_tabo (rows ! i) = comment (tabo ! i) \<and>
        (comment (tabo ! i) \<noteq> [] \<longrightarrow> descrizione_proposta (rows ! i) = comment (tabo ! i)) \<and>
        (comment (tabo ! i) = [] \<and> colonna_tabi (rows ! i) \<noteq> [] \<longrightarrow>
           (\<exists>r. find (\<lambda>r. column_name r = colonna_tabi (rows ! i)) tabi = Some r \<and>
                (comment r \<noteq> [] \<longrightarrow> descrizione_proposta (rows ! i) = comment r) \<and>
                (comment r = [] \<longrightarrow> descrizione_proposta (rows ! i) = []))) \<and>
        (comment (tabo ! i) = [] \<and> colonna_tabi (rows ! i) = [] \<longrightarrow>
           descrizione_proposta (rows ! i) = [])" if "i < length tabo" for i
    using list_all2_nthD [OF rows that] by (auto simp: proposed_def)
  with run len show ?thesis by blast
qed

theorem proposed_comment_priority_witness:
  "create_decision_table
     [\<lparr>column_name = ''first_name'', comment = ''Customer first name''\<rparr>,
      \<lparr>column_name = ''email'', comment = ''''\<rparr>]
     [\<lparr>column_name = ''firstname'', comment = ''''\<rparr>,
      \<lparr>column_name = ''status'', comment = ''User status''\<rparr>,
      \<lparr>column_name = ''e_mail'', comment = ''''\<rparr>] =
   Inr [\<lparr>sostituire = True, colonna_tabo = ''firstname'', comment_tabo = '''',
         colonna_tabi = ''first_name'', comment_tabi = ''Customer first name'',
         descrizione_proposta = ''Customer first name''\<rparr>,
      \<lparr>sostituire = True, colonna_tabo = ''status'', comment_tabo = ''User status'',
         colonna_tabi = '''', comment_tabi = '''', descrizione_proposta = ''User status''\<rparr>,
      \<lparr>sostituire = True, colonna_tabo = ''e_mail'', comment_tabo = '''',
         colonna_tabi = ''email'', comment_tabi = '''', descrizione_proposta = ''''\<rparr>] \<and>
   descrizione_proposta ([\<lparr>sostituire = True, colonna_tabo = ''firstname'', comment_tabo = '''',
         colonna_tabi = ''first_name'', comment_tabi = ''Customer first name'',
         descrizione_proposta = ''Customer first name''\<rparr>,
      \<lparr>sostituire = True, colonna_tabo = ''status'', comment_tabo = ''User status'',
         colonna_tabi = '''', comment_tabi = '''', descrizione_proposta = ''User status''\<rparr>,
      \<lparr>sostituire = True, colonna_tabo = ''e_mail'', comment_tabo = '''',
         colonna_tabi = ''email'', comment_tabi = '''', descrizione_proposta = ''''\<rparr>] ! 0) = ''Customer first name'' \<and>
   descrizione_proposta ([\<lparr>sostituire = True, colonna_tabo = ''firstname'', comment_tabo = '''',
         colonna_tabi = ''first_name'', comment_tabi = ''Customer first name'',
         descrizione_proposta = ''Customer first name''\<rparr>,
      \<lparr>sostituire = True, colonna_tabo = ''status'', comment_tabo = ''User status'',
         colonna_tabi = '''', comment_tabi = '''', descrizione_proposta = ''User status''\<rparr>,
      \<lparr>sostituire = True, colonna_tabo = ''e_mail'', comment_tabo = '''',
         colonna_tabi = ''email'', comment_tabi = '''', descrizione_proposta = ''''\<rparr>] ! 1) = ''User status'' \<and>
   descrizione_proposta ([\<lparr>sostituire = True, colonna_tabo = ''firstname'', comment_tabo = '''',
         colonna_tabi = ''first_name'', comment_tabi = ''Customer first name'',
         descrizione_proposta = ''Customer first name''\<rparr>,
      \<lparr>sostituire = True, colonna_tabo = ''status'', comment_tabo = ''User status'',
         colonna_tabi = '''', comment_tabi = '''', descrizione_proposta = ''User status''\<rparr>,
      \<lparr>sostituire = True, colonna_tabo = ''e_mail'', comment_tabo = '''',
         colonna_tabi = ''email'', comment_tabi = '''', descrizione_proposta = ''''\<rparr>] ! 2) = ''''"
proof -
  have r: "create_decision_table
     [\<lparr>column_name = ''first_name'', comment = ''Customer first name''\<rparr>,
      \<lparr>column_name = ''email'', comment = ''''\<rparr>]
     [\<lparr>column_name = ''firstname'', comment = ''''\<rparr>,
      \<lparr>column_name = ''status'', comment = ''User status''\<rparr>,
      \<lparr>column_name = ''e_mail'', comment = ''''\<rparr>] =
   Inr [\<lparr>sostituire = True, colonna_tabo = ''firstname'', comment_tabo = '''',
         colonna_tabi = ''first_name'', comment_tabi = ''Customer first name'',
         descrizione_proposta = ''Customer first name''\<rparr>,
      \<lparr>sostituire = True, colonna_tabo = ''status'', comment_tabo = ''User status'',
         colonna_tabi = '''', comment_tabi = '''', descrizione_proposta = ''User status''\<rparr>,
      \<lparr>sostituire = True, colonna_tabo = ''e_mail'', comment_tabo = '''',
         colonna_tabi = ''email'', comment_tabi = '''', descrizione_proposta = ''''\<rparr>]"
    by code_simp
  from proposed_comment_priority [of
     "[\<lparr>column_name = ''first_name'', comment = ''Customer first name''\<rparr>,
      \<lparr>column_name = ''email'', comment = ''''\<rparr>]"
     "[\<lparr>column_name = ''firstname'', comment = ''''\<rparr>,
      \<lparr>column_name = ''status'', comment = ''User status''\<rparr>,
      \<lparr>column_name = ''e_mail'', comment = ''''\<rparr>]"] r
  show ?thesis by simp
qed



text \<open>
  Claim C3.  For every pair of input tables the function returns a table with exactly
  one row per target column, in the order of the target table (the \<^verbatim>\<open>colonna_tabo\<close> and
  \<^verbatim>\<open>comment_tabo\<close> of the rows are the names and comments of the target columns, in
  order), and \<^verbatim>\<open>sostituire\<close> is true in every row.
\<close>

theorem one_row_per_target_column:
  "\<exists>rows. create_decision_table tabi tabo = Inr rows \<and> length rows = length tabo \<and>
     map colonna_tabo rows = map column_name tabo \<and>
     map comment_tabo rows = map comment tabo \<and>
     (\<forall>d\<in>set rows. sostituire d)"
proof -
  from create_decision_table_rows [of tabi tabo] obtain rows where
    run: "create_decision_table tabi tabo = Inr rows" and
    rows: "list_all2 (\<lambda>t d. sostituire d \<and> colonna_tabo d = column_name t \<and> comment_tabo d = comment t \<and>
        descrizione_proposta d = proposed (comment t) (comment_tabi d) \<and>
        (colonna_tabi d = [] \<and> comment_tabi d = [] \<or>
         colonna_tabi d \<noteq> [] \<and>
         (\<exists>r. find (\<lambda>r. column_name r = colonna_tabi d) tabi = Some r \<and> comment_tabi d = comment r)))
       tabo rows"
    by blast
  from rows have len: "length rows = length tabo"
    by (simp add: list_all2_lengthD)
  from rows have "list_all2 (\<lambda>t d. colonna_tabo d = column_name t) tabo rows"
    by (rule list_all2_mono) simp
  then have names: "map colonna_tabo rows = map column_name tabo"
    by (rule list_all2_map_eq)
  from rows have "list_all2 (\<lambda>t d. comment_tabo d = comment t) tabo rows"
    by (rule list_all2_mono) simp
  then have comments: "map comment_tabo rows = map comment tabo"
    by (rule list_all2_map_eq)
  have "\<forall>d\<in>set rows. sostituire d"
    using list_all2_setD2 [OF rows] by blast
  with run len names comments show ?thesis by blast
qed

theorem one_row_per_target_column_witness:
  "create_decision_table
     [\<lparr>column_name = ''first_name'', comment = ''Customer first name''\<rparr>,
      \<lparr>column_name = ''email'', comment = ''''\<rparr>]
     [\<lparr>column_name = ''firstname'', comment = ''''\<rparr>,
      \<lparr>column_name = ''status'', comment = ''User status''\<rparr>,
      \<lparr>column_name = ''e_mail'', comment = ''''\<rparr>] =
   Inr [\<lparr>sostituire = True, colonna_tabo = ''firstname'', comment_tabo = '''',
         colonna_tabi = ''first_name'', comment_tabi = ''Customer first name'',
         descrizione_proposta = ''Customer first name''\<rparr>,
      \<lparr>sostituire = True, colonna_tabo = ''status'', comment_tabo = ''User status'',
         colonna_tabi = '''', comment_tabi = '''', descrizione_proposta = ''User status''\<rparr>,
      \<lparr>sostituire = True, colonna_tabo = ''e_mail'', comment_tabo = '''',
         colonna_tabi = ''email'', comment_tabi = '''', descrizione_proposta = ''''\<rparr>] \<and>
   length [\<lparr>sostituire = True, colonna_tabo = ''firstname'', comment_tabo = '''',
         colonna_tabi = ''first_name'', comment_tabi = ''Customer first name'',
         descrizione_proposta = ''Customer first name''\<rparr>,
      \<lparr>sostituire = True, colonna_tabo = ''status'', comment_tabo = ''User status'',
         colonna_tabi = '''', comment_tabi = '''', descrizione_proposta = ''User status''\<rparr>,
      \<lparr>sostituire = True, colonna_tabo = ''e_mail'', comment_tabo = '''',
         colonna_tabi = ''email'', comment_tabi = '''', descrizione_proposta = ''''\<rparr>] = 3 \<and>
   map colonna_tabo [\<lparr>sostituire = True, colonna_tabo = ''firstname'', comment_tabo = '''',
         colonna_tabi = ''first_name'', comment_tabi = ''Customer first name'',
         descrizione_proposta = ''Customer first name''\<rparr>,
      \<lparr>sostituire = True, colonna_tabo = ''status'', comment_tabo = ''User status'',
         colonna_tabi = '''', comment_tabi = '''', descrizione_proposta = ''User status''\<rparr>,
      \<lparr>sostituire = True, colonna_tabo = ''e_mail'', comment_tabo = '''',
         colonna_tabi = ''email'', comment_tabi = '''', descrizione_proposta = ''''\<rparr>] = [''firstname'', ''status'', ''e_mail'']"
proof -
  have r: "create_decision_table
     [\<lparr>column_name = ''first_name'', comment = ''Customer first name''\<rparr>,
      \<lparr>column_name = ''email'', comment = ''''\<rparr>]
     [\<lparr>column_name = ''firstname'', comment = ''''\<rparr>,
      \<lparr>column_name = ''status'', comment = ''User status''\<rparr>,
      \<lparr>column_name = ''e_mail'', comment = ''''\<rparr>] =
   Inr [\<lparr>sostituire = True, colonna_tabo = ''firstname'', comment_tabo = '''',
         colonna_tabi = ''first_name'', comment_tabi = ''Customer first name'',
         descrizione_proposta = ''Customer first name''\<rparr>,
      \<lparr>sostituire = True, colonna_tabo = ''status'', comment_tabo = ''User status'',
         colonna_tabi = '''', comment_tabi = '''', descrizione_proposta = ''User status''\<rparr>,
      \<lparr>sostituire = True, colonna_tabo = ''e_mail'', comment_tabo = '''',
         colonna_tabi = ''email'', comment_tabi = '''', descrizione_proposta = ''''\<rparr>]"
    by code_simp
  from one_row_per_target_column [of
     "[\<lparr>column_name = ''first_name'', comment = ''Customer first name''\<rparr>,
      \<lparr>column_name = ''email'', comment = ''''\<rparr>]"
     "[\<lparr>column_name = ''firstname'', comment = ''''\<rparr>,
      \<lparr>column_name = ''status'', comment = ''User status''\<rparr>,
      \<lparr>column_name = ''e_mail'', comment = ''''\<rparr>]"] r
  show ?thesis by simp
qed

text \<open>
  Claim C7.  The function is total: on any two tables it returns a table and raises
  nothing (the one lookup that could raise, \<^verbatim>\<open>.iloc[0]\<close>, is always on a non-empty
  selection).  With an empty target table the result is the empty table.  With an empty
  source table every row is unmatched: \<^verbatim>\<open>colonna_tabi\<close> and \<^verbatim>\<open>comment_tabi\<close> are empty,
  and the proposed comment is the target's own.
\<close>

theorem create_decision_table_total:
  "(\<exists>rows. create_decision_table tabi tabo = Inr rows) \<and>
   create_decision_table tabi [] = Inr [] \<and>
   create_decision_table [] tabo =
     Inr (map (\<lambda>t. \<lparr>sostituire = True, colonna_tabo = column_name t,
       comment_tabo = comment t, colonna_tabi = [], comment_tabi = [],
       descrizione_proposta = comment t\<rparr>) tabo)"
  using create_decision_table_rows [of tabi tabo]
  by (auto simp: create_decision_table_def decision_loop_empty_source)

text \<open>
  Claim C8.  Nothing is assumed about the names of the source table, so they may repeat;
  the function still returns a table, and in every matched row \<^verbatim>\<open>comment_tabi\<close> is the
  comment of the first row of the source table, in row order, whose name is the matched
  name.
\<close>

theorem duplicate_source_names_first_row:
  "\<exists>rows. create_decision_table tabi tabo = Inr rows \<and>
     (\<forall>d\<in>set rows. colonna_tabi d \<noteq> [] \<longrightarrow>
        (\<exists>i<length tabi. column_name (tabi ! i) = colonna_tabi d \<and>
           (\<forall>j<i. column_name (tabi ! j) \<noteq> colonna_tabi d) \<and>
           comment_tabi d = comment (tabi ! i)))"
proof -
  from create_decision_table_rows [of tabi tabo] obtain rows where
    run: "create_decision_table tabi tabo = Inr rows" and
    rows: "list_all2 (\<lambda>t d. sostituire d \<and> colonna_tabo d = column_name t \<and> comment_tabo d = comment t \<and>
        descrizione_proposta d = proposed (comment t) (comment_tabi d) \<and>
        (colonna_tabi d = [] \<and> comment_tabi d = [] \<or>
         colonna_tabi d \<noteq> [] \<and>
         (\<exists>r. find (\<lambda>r. column_name r = colonna_tabi d) tabi = Some r \<and> comment_tabi d = comment r)))
       tabo rows"
    by blast
  have "\<exists>i<length tabi. column_name (tabi ! i) = colonna_tabi d \<and>
           (\<forall>j<i. column_name (tabi ! j) \<noteq> colonna_tabi d) \<and>
           comment_tabi d = comment (tabi ! i)"
    if d: "d \<in> set rows" and m: "colonna_tabi d \<noteq> []" for d
  proof -
    from list_all2_setD2 [OF rows d] m obtain r where
      "find (\<lambda>r. column_name r = colonna_tabi d) tabi = Some r" and "comment_tabi d = comment r"
      by blast
    then show ?thesis
      by (auto simp: find_Some_iff)
  qed
  with run show ?thesis by blast
qed

theorem duplicate_source_names_first_row_witness:
  "create_decision_table
     [\<lparr>column_name = ''id'', comment = ''first''\<rparr>, \<lparr>column_name = ''id'', comment = ''second''\<rparr>]
     [\<lparr>column_name = ''id'', comment = ''''\<rparr>, \<lparr>column_name = ''id'', comment = ''''\<rparr>] =
   Inr [\<lparr>sostituire = True, colonna_tabo = ''id'', comment_tabo = '''', colonna_tabi = ''id'',
          comment_tabi = ''first'', descrizione_proposta = ''first''\<rparr>,
        \<lparr>sostituire = True, colonna_tabo = ''id'', comment_tabo = '''', colonna_tabi = '''',
          comment_tabi = '''', descrizione_proposta = ''''\<rparr>]"
proof -
  have r: "create_decision_table
     [\<lparr>column_name = ''id'', comment = ''first''\<rparr>, \<lparr>column_name = ''id'', comment = ''second''\<rparr>]
     [\<lparr>column_name = ''id'', comment = ''''\<rparr>, \<lparr>column_name = ''id'', comment = ''''\<rparr>] =
   Inr [\<lparr>sostituire = True, colonna_tabo = ''id'', comment_tabo = '''', colonna_tabi = ''id'',
          comment_tabi = ''first'', descrizione_proposta = ''first''\<rparr>,
        \<lparr>sostituire = True, colonna_tabo = ''id'', comment_tabo = '''', colonna_tabi = '''',
          comment_tabi = '''', descrizione_proposta = ''''\<rparr>]"
    by code_simp
  from duplicate_source_names_first_row [of
     "[\<lparr>column_name = ''id'', comment = ''first''\<rparr>, \<lparr>column_name = ''id'', comment = ''second''\<rparr>]"
     "[\<lparr>column_name = ''id'', comment = ''''\<rparr>, \<lparr>column_name = ''id'', comment = ''''\<rparr>]"] r
  show ?thesis by simp
qed

text \<open>
  Claim C9.  The reference scenario of \<^verbatim>\<open>test_decision_table\<close>: four source columns, five
  target columns.  The result has exactly five rows: \<^verbatim>\<open>user_id\<close> unmatched with an empty
  proposed comment, \<^verbatim>\<open>firstname\<close> matched with \<^verbatim>\<open>first_name\<close> and \<^verbatim>\<open>lastname\<close> with
  \<^verbatim>\<open>last_name\<close>, each proposing the source comment, \<^verbatim>\<open>email_addr\<close> unmatched with an
  empty proposed comment, and \<^verbatim>\<open>status\<close> unmatched, keeping its own comment.
\<close>

theorem reference_scenario:
  "create_decision_table
     [\<lparr>column_name = ''customer_id'', comment = ''Unique customer identifier''\<rparr>,
      \<lparr>column_name = ''first_name'', comment = ''Customer first name''\<rparr>,
      \<lparr>column_name = ''last_name'', comment = ''Customer last name''\<rparr>,
      \<lparr>column_name = ''email'', comment = ''Email address''\<rparr>]
     [\<lparr>column_name = ''user_id'', comment = ''''\<rparr>,
      \<lparr>column_name = ''firstname'', comment = ''''\<rparr>,
      \<lparr>column_name = ''lastname'', comment = ''''\<rparr>,
      \<lparr>column_name = ''email_addr'', comment = ''''\<rparr>,
      \<lparr>column_name = ''status'', comment = ''User status''\<rparr>] =
   Inr [\<lparr>sostituire = True, colonna_tabo = ''user_id'', comment_tabo = '''',
          colonna_tabi = '''', comment_tabi = '''', descrizione_proposta = ''''\<rparr>,
        \<lparr>sostituire = True, colonna_tabo = ''firstname'', comment_tabo = '''',
          colonna_tabi = ''first_name'', comment_tabi = ''Customer first name'',
          descrizione_proposta = ''Customer first name''\<rparr>,
        \<lparr>sostituire = True, colonna_tabo = ''lastname'', comment_tabo = '''',
          colonna_tabi = ''last_name'', comment_tabi = ''Customer last name'',
          descrizione_proposta = ''Customer last name''\<rparr>,
        \<lparr>sostituire = True, colonna_tabo = ''email_addr'', comment_tabo = '''',
          colonna_tabi = '''', comment_tabi = '''', descrizione_proposta = ''''\<rparr>,
        \<lparr>sostituire = True, colonna_tabo = ''status'', comment_tabo = ''User status'',
          colonna_tabi = '''', comment_tabi = '''', descrizione_proposta = ''User status''\<rparr>]"
  by code_simp

text \<open>
  Claim C10.  A source column whose name is the empty string is never matched and never
  enters \<^verbatim>\<open>used_tabi_cols\<close>.  When \<^verbatim>\<open>find_best_match\<close> returns the empty string, the
  pass of the loop emits the row it emits for \<^verbatim>\<open>None\<close> and leaves \<^verbatim>\<open>used_tabi_cols\<close> as
  it was; at the end of the loop the empty string is not in \<^verbatim>\<open>used_tabi_cols\<close>, and every
  row whose \<^verbatim>\<open>colonna_tabi\<close> is empty is an unmatched row, with an empty
  \<^verbatim>\<open>comment_tabi\<close>.  The matcher does select the empty name: for the empty target and
  for the target \<^verbatim>\<open>abc\<close>, at distance 3.
\<close>

theorem empty_source_name_never_matched:
  "(find_best_match (column_name t) (filter (\<lambda>col. col \<notin> used) (map column_name tabi)) = Some [] \<longrightarrow>
      decision_step tabi used t =
        Inr (used, \<lparr>sostituire = True, colonna_tabo = column_name t, comment_tabo = comment t,
                    colonna_tabi = [], comment_tabi = [],
                    descrizione_proposta = proposed (comment t) []\<rparr>)) \<and>
   (\<exists>used' rows. decision_loop tabi tabo {} [] = Inr (used', rows) \<and>
      create_decision_table tabi tabo = Inr rows \<and> [] \<notin> used' \<and>
      (\<forall>d\<in>set rows. colonna_tabi d = [] \<longrightarrow> comment_tabi d = [])) \<and>
   find_best_match [] [[]] = Some [] \<and>
   find_best_match ''abc'' [[]] = Some []"
proof -
  have step: "find_best_match (column_name t) (filter (\<lambda>col. col \<notin> used) (map column_name tabi)) = Some [] \<longrightarrow>
      decision_step tabi used t =
        Inr (used, \<lparr>sostituire = True, colonna_tabo = column_name t, comment_tabo = comment t,
                    colonna_tabi = [], comment_tabi = [],
                    descrizione_proposta = proposed (comment t) []\<rparr>)"
    by (simp add: decision_step_def take_match_def Let_def)
  from create_decision_table_used [of tabi tabo] obtain used' rows where
    loop: "decision_loop tabi tabo {} [] = Inr (used', rows)" and
    run: "create_decision_table tabi tabo = Inr rows" and
    fresh: "[] \<notin> used'"
    by blast
  from create_decision_table_rows [of tabi tabo] run have
    rows: "list_all2 (\<lambda>t d. sostituire d \<and> colonna_tabo d = column_name t \<and> comment_tabo d = comment t \<and>
        descrizione_proposta d = proposed (comment t) (comment_tabi d) \<and>
        (colonna_tabi d = [] \<and> comment_tabi d = [] \<or>
         colonna_tabi d \<noteq> [] \<and>
         (\<exists>r. find (\<lambda>r. column_name r = colonna_tabi d) tabi = Some r \<and> comment_tabi d = comment r)))
       tabo rows"
    by simp
  have unm: "\<forall>d\<in>set rows. colonna_tabi d = [] \<longrightarrow> comment_tabi d = []"
    using list_all2_setD2 [OF rows] by blast
  have e1: "find_best_match [] [[]] = Some []"
    by code_simp
  have e2: "find_best_match ''abc'' [[]] = Some []"
    by code_simp
  from step loop run fresh unm e1 e2 show ?thesis by blast
qed

theorem empty_source_name_never_matched_witness:
  "find_best_match ''abc''
     (filter (\<lambda>col. col \<notin> {}) (map column_name [\<lparr>column_name = '''', comment = ''Secret''\<rparr>])) =
     Some [] \<and>
   decision_step [\<lparr>column_name = '''', comment = ''Secret''\<rparr>] {}
     \<lparr>column_name = ''abc'', comment = ''''\<rparr> =
     Inr ({}, \<lparr>sostituire = True, colonna_tabo = ''abc'', comment_tabo = '''',
               colonna_tabi = '''', comment_tabi = '''', descrizione_proposta = ''''\<rparr>)"
proof -
  have h: "find_best_match ''abc''
     (filter (\<lambda>col. col \<notin> {}) (map column_name [\<lparr>column_name = '''', comment = ''Secret''\<rparr>])) =
     Some []"
    by code_simp
  from empty_source_name_never_matched [of "\<lparr>column_name = ''abc'', comment = ''''\<rparr>" "{}"
     "[\<lparr>column_name = '''', comment = ''Secret''\<rparr>]"] h
  show ?thesis by (simp add: proposed_def)
qed

end
